theory Spec2Isabelle
  imports Main "HOL-Library.Word"
begin

section \<open>The email-list backend: data model\<close>

text \<open>
  The repository holds several iterations of one Express server. The complete one is
  the documented file (\<^verbatim>\<open>src/unnamed/part_000\<close>, lines 1-551); the third
  section of \<^verbatim>\<open>src/server.js\<close> (lines 255-647) is the same code under older
  route names, but for the link of its verification mail (\<open>signup_v3\<close>). The first section of \<^verbatim>\<open>src/server.js\<close> (lines 1-201) is an
  earlier iteration with its own signup, verify-email, signin and get-users handlers;
  they are modelled too, with the suffix \<open>_v1\<close>. The remaining fragments are
  drafts without a verification handshake and are not modelled, but for their get-users
  route, which is that of the first iteration: a signup that inserts neither flag nor
  token (part_000 lines 585-632), a signup that only hashes the password (server.js
  lines 238-253) and an empty one (part_001).

  The handlers talk to PostgreSQL through one shared \<^verbatim>\<open>pg\<close> client. The three
  tables are lists of rows (order and duplicates are kept, so that row counts mean what
  \<^verbatim>\<open>rowCount\<close> and \<^verbatim>\<open>rows.length\<close> mean). Column names are prefixed by
  their table, since record fields share one name space.
\<close>

record user =
  u_id :: string
  u_username :: string
  u_email :: string
  u_password_hash :: string
  u_created_at :: nat
  u_is_verified :: bool
  u_token :: "string option"

record project =
  p_id :: nat
  p_user_id :: string
  p_project_name :: string
  p_description :: "string option"
  p_created_at :: nat

record project_email =
  pe_id :: nat
  pe_project_id :: nat
  pe_email :: string
  pe_added_at :: nat

record db =
  users :: "user list"
  projects :: "project list"
  project_emails :: "project_email list"

text \<open>
  The connection: the current contents of the database as this connection sees them,
  the snapshot taken by \<^verbatim>\<open>BEGIN\<close> while a transaction is open, and the mails handed
  to the SMTP transport (recipient and link). A mail once sent is not undone by a
  rollback.
\<close>

record client =
  store :: db
  txn :: "db option"
  outbox :: "(string \<times> string) list"

definition sql_begin :: "client \<Rightarrow> client" where
  "sql_begin c = (case txn c of None \<Rightarrow> c\<lparr>txn := Some (store c)\<rparr> | Some s \<Rightarrow> c)"

definition sql_commit :: "client \<Rightarrow> client" where
  "sql_commit c = c\<lparr>txn := None\<rparr>"

definition sql_rollback :: "client \<Rightarrow> client" where
  "sql_rollback c = (case txn c of None \<Rightarrow> c | Some s \<Rightarrow> c\<lparr>store := s, txn := None\<rparr>)"

subsection \<open>Responses\<close>

datatype json =
  JNull
  | JBool bool
  | JNum int
  | JStr string
  | JArr "json list"
  | JObj "(string \<times> json) list"

text \<open>\<^verbatim>\<open>res.status(n).json(v)\<close> and \<^verbatim>\<open>res.sendStatus(n)\<close>; and the handler
  that ends on an error nothing catches, which sends nothing.\<close>

datatype response = Json nat json | SendStatus nat | NoResponse

definition message :: "string \<Rightarrow> json" where
  "message m = JObj [(''message'', JStr m)]"

definition internal_error :: response where
  "internal_error = Json 500 (message ''Internal server error'')"

text \<open>The value of a top-level field of a JSON object body.\<close>

fun field :: "string \<Rightarrow> json \<Rightarrow> json option" where
  "field k (JObj kvs) = map_of kvs k"
| "field k JNull = None"
| "field k (JBool b) = None"
| "field k (JNum n) = None"
| "field k (JStr s) = None"
| "field k (JArr xs) = None"

text \<open>Whether a key occurs anywhere in a JSON value, at any depth.\<close>

fun mentions :: "string \<Rightarrow> json \<Rightarrow> bool" where
  "mentions k (JObj kvs) = list_ex (\<lambda>kv. fst kv = k \<or> mentions k (snd kv)) kvs"
| "mentions k (JArr xs) = list_ex (mentions k) xs"
| "mentions k JNull = False"
| "mentions k (JBool b) = False"
| "mentions k (JNum n) = False"
| "mentions k (JStr s) = False"

fun body :: "response \<Rightarrow> json" where
  "body (Json st b) = b"
| "body (SendStatus st) = JNull"
| "body NoResponse = JNull"

text \<open>JavaScript's \<^verbatim>\<open>!x\<close> on a request field that is a string: an absent field
  and the empty string are both falsy, and both are the empty string here.\<close>

definition falsy :: "string \<Rightarrow> bool" where
  "falsy s = (s = [])"

text \<open>\<^verbatim>\<open>!v\<close> on a field of a JSON body, whatever its type: \<^verbatim>\<open>null\<close> (and an
  absent field, which is \<^verbatim>\<open>null\<close> here), \<^verbatim>\<open>false\<close>, \<^verbatim>\<open>0\<close> and the
  empty string are falsy; arrays and objects are not.\<close>

fun js_falsy :: "json \<Rightarrow> bool" where
  "js_falsy JNull = True"
| "js_falsy (JBool b) = (\<not> b)"
| "js_falsy (JNum n) = (n = 0)"
| "js_falsy (JStr s) = falsy s"
| "js_falsy (JArr xs) = False"
| "js_falsy (JObj kvs) = False"

text \<open>
  Every \<^verbatim>\<open>await client.query(...)\<close> can reject. Inside a \<^verbatim>\<open>try\<close> block the
  handler's \<^verbatim>\<open>catch\<close> is then a branch of the model. A fault schedule \<open>flt\<close>
  says which query of the handler rejects, numbered from 0 in the order of the source
  text; a rejected statement changes nothing. The \<^verbatim>\<open>ROLLBACK\<close> awaited inside the
  \<^verbatim>\<open>catch\<close> block of the two transactional handlers is their query 5: nothing
  catches its rejection, so the handler ends there and no response is sent.
\<close>

type_synonym faults = "nat \<Rightarrow> bool"

definition no_faults :: faults where
  "no_faults = (\<lambda>i. False)"

section \<open>Email verification\<close>

text \<open>
  \<^verbatim>\<open>GET /verify-email\<close> (part_000 lines 209-230, server.js lines 396-417):
  \<^verbatim>\<open>UPDATE users SET is_verified = TRUE WHERE token = $1 RETURNING email\<close>.
  The row count of an \<^verbatim>\<open>UPDATE\<close> is the number of rows its \<^verbatim>\<open>WHERE\<close>
  matches, whether or not a value changes. A \<^verbatim>\<open>NULL\<close> token matches nothing.
\<close>

definition holds_token :: "string \<Rightarrow> user \<Rightarrow> bool" where
  "holds_token t u = (u_token u = Some t)"

definition set_verified :: "string \<Rightarrow> user \<Rightarrow> user" where
  "set_verified t u = (if holds_token t u then u\<lparr>u_is_verified := True\<rparr> else u)"

definition verify_email :: "faults \<Rightarrow> client \<Rightarrow> string \<Rightarrow> client \<times> response" where
  "verify_email flt c token =
     (if falsy token then (c, Json 400 (message ''Invalid token''))
      else if flt 0 then (c, internal_error)
      else
        let rowCount = length (filter (holds_token token) (users (store c)));
            c' = c\<lparr>store := (store c)\<lparr>users := map (set_verified token) (users (store c))\<rparr>\<rparr>
        in if rowCount = 0 then (c', Json 400 (message ''Invalid token''))
           else (c', Json 200 (message ''Email verified successfully'')))"


section \<open>Libraries and ambient inputs\<close>

text \<open>
  \<^verbatim>\<open>bcrypt\<close>, \<^verbatim>\<open>jsonwebtoken\<close>, the \<^verbatim>\<open>pg\<close> driver and the JavaScript
  \<^verbatim>\<open>Date\<close> are external: the handlers are parametrised by them, and every theorem
  holds for any behaviour of theirs. \<open>bcrypt_compare\<close> is the result on two strings;
  on a password that is not a string \<^verbatim>\<open>bcrypt.compare\<close> rejects, which is a branch
  of the signin handlers. The signing function already holds the process-wide secret
  and the \<^verbatim>\<open>1h\<close> lifetime; it takes the user identifier of the payload and the time
  of issuance. \<open>pg_array\<close> is the text the driver sends for a query parameter that is
  an array. \<open>hour_later_iso\<close> is \<^verbatim>\<open>toISOString()\<close> of the clock after
  \<^verbatim>\<open>setHours(getHours() + 1)\<close>, one hour later in local time.
\<close>

record libs =
  bcrypt_hash :: "string \<Rightarrow> nat \<Rightarrow> string \<Rightarrow> string"
  bcrypt_compare :: "string \<Rightarrow> string \<Rightarrow> bool"
  jwt_sign :: "string \<Rightarrow> nat \<Rightarrow> string"
  jwt_verify :: "string \<Rightarrow> nat \<Rightarrow> string option"
  pg_array :: "json list \<Rightarrow> string"
  hour_later_iso :: "nat \<Rightarrow> string"

text \<open>
  What a request reads from outside the store: the clock (\<^verbatim>\<open>NOW()\<close>,
  \<^verbatim>\<open>new Date()\<close>), \<^verbatim>\<open>uuidv4()\<close>, the 32 bytes of
  \<^verbatim>\<open>crypto.randomBytes(32)\<close> (256 bits), the salt bcrypt draws, and the identifier
  the database assigns to an inserted project or project email row (the schema is not
  part of the sources; the \<^verbatim>\<open>INSERT\<close> statements leave the column to its default).
\<close>

record ambient =
  clock :: nat
  fresh_uuid :: string
  random_bytes :: "256 word"
  fresh_salt :: string
  next_id :: nat

text \<open>\<^verbatim>\<open>buffer.toString("hex")\<close>: two lower-case hexadecimal digits per byte, the
  first byte first; 64 digits for 32 bytes.\<close>

definition hex_digit :: "nat \<Rightarrow> char" where
  "hex_digit n = ''0123456789abcdef'' ! (n mod 16)"

definition to_hex :: "256 word \<Rightarrow> string" where
  "to_hex w = map (\<lambda>i. hex_digit (unat (drop_bit (4 * (63 - i)) w))) [0..<64]"

text \<open>\<^verbatim>\<open>encodeURIComponent\<close> on a string of UTF-8 bytes: letters, digits and
  \<^verbatim>\<open>- _ . ! ~ * ' ( )\<close> stay, every other byte becomes \<^verbatim>\<open>%\<close> and two
  upper-case hexadecimal digits.\<close>

definition uri_unreserved :: "char \<Rightarrow> bool" where
  "uri_unreserved ch =
     (ch \<in> set ''ABCDEFGHIJKLMNOPQRSTUVWXYZabcdefghijklmnopqrstuvwxyz0123456789-_.!~*()''
      \<or> ch = CHR 0x27)"

definition upper_hex_digit :: "nat \<Rightarrow> char" where
  "upper_hex_digit n = ''0123456789ABCDEF'' ! (n mod 16)"

definition percent_encode :: "char \<Rightarrow> string" where
  "percent_encode ch =
     [CHR ''%'', upper_hex_digit (of_char ch div 16), upper_hex_digit (of_char ch mod 16)]"

definition encodeURIComponent :: "string \<Rightarrow> string" where
  "encodeURIComponent s =
     concat (map (\<lambda>ch. if uri_unreserved ch then [ch] else percent_encode ch) s)"

text \<open>
  \<^verbatim>\<open>sendVerificationEmail\<close>: the link of the mail, which differs between the
  three copies of the function. The documented file (part_000 lines 91-109) links to
  the deployed host and encodes the token; the third section of server.js (lines
  300-318) links to \<^verbatim>\<open>localhost:8080\<close> and encodes the token; the first section
  of server.js (lines 45-61) links to \<^verbatim>\<open>localhost:8080\<close> with the token as it is.
\<close>

definition verification_url :: "string \<Rightarrow> string" where
  "verification_url token =
     ''https://email-list-0187bfa72de5.herokuapp.com/verify-email?token=''
       @ encodeURIComponent token"

definition verification_url_v3 :: "string \<Rightarrow> string" where
  "verification_url_v3 token =
     ''http://localhost:8080/verify-email?token='' @ encodeURIComponent token"

definition verification_url_v1 :: "string \<Rightarrow> string" where
  "verification_url_v1 token = ''http://localhost:8080/verify-email?token='' @ token"

definition sendVerificationEmail :: "string \<Rightarrow> string \<Rightarrow> client \<Rightarrow> client" where
  "sendVerificationEmail userEmail token c =
     c\<lparr>outbox := outbox c @ [(userEmail, verification_url token)]\<rparr>"

definition sendVerificationEmail_v3 :: "string \<Rightarrow> string \<Rightarrow> client \<Rightarrow> client" where
  "sendVerificationEmail_v3 userEmail token c =
     c\<lparr>outbox := outbox c @ [(userEmail, verification_url_v3 token)]\<rparr>"

definition sendVerificationEmail_v1 :: "string \<Rightarrow> string \<Rightarrow> client \<Rightarrow> client" where
  "sendVerificationEmail_v1 userEmail token c =
     c\<lparr>outbox := outbox c @ [(userEmail, verification_url_v1 token)]\<rparr>"

section \<open>Signup\<close>

definition select_users_by_email :: "db \<Rightarrow> string \<Rightarrow> user list" where
  "select_users_by_email d e = filter (\<lambda>u. u_email u = e) (users d)"

definition select_users_by_username :: "db \<Rightarrow> string \<Rightarrow> user list" where
  "select_users_by_username d n = filter (\<lambda>u. u_username u = n) (users d)"

definition insert_user :: "user \<Rightarrow> client \<Rightarrow> client" where
  "insert_user row c = c\<lparr>store := (store c)\<lparr>users := users (store c) @ [row]\<rparr>\<rparr>"

text \<open>\<^verbatim>\<open>RETURNING id, username, email, created_at\<close>\<close>

definition user_summary :: "user \<Rightarrow> json" where
  "user_summary u =
     JObj [(''id'', JStr (u_id u)), (''username'', JStr (u_username u)),
           (''email'', JStr (u_email u)), (''created_at'', JNum (int (u_created_at u)))]"

text \<open>
  \<^verbatim>\<open>POST /users/signup\<close> (part_000 lines 139-200). Queries: 0 the email check,
  1 the username check, 2 the \<^verbatim>\<open>INSERT\<close> with \<^verbatim>\<open>is_verified = FALSE\<close> and
  the token.
\<close>

definition signup ::
  "libs \<Rightarrow> ambient \<Rightarrow> faults \<Rightarrow> client \<Rightarrow> string \<Rightarrow> string \<Rightarrow> string \<Rightarrow> client \<times> response" where
  "signup L amb flt c username email password =
     (if falsy username \<or> falsy email \<or> falsy password
      then (c, Json 400 (message ''All fields are required''))
      else if flt 0 then (c, internal_error)
      else if length (select_users_by_email (store c) email) > 0
      then (c, Json 400 (message ''This email is already associated with an account''))
      else if flt 1 then (c, internal_error)
      else if length (select_users_by_username (store c) username) > 0
      then (c, Json 400 (message ''This username is already taken''))
      else
        let passwordHash = bcrypt_hash L (fresh_salt amb) 13 password;
            token = to_hex (random_bytes amb);
            userId = fresh_uuid amb;
            newUser = \<lparr>u_id = userId, u_username = username, u_email = email,
                       u_password_hash = passwordHash, u_created_at = clock amb,
                       u_is_verified = False, u_token = Some token\<rparr>
        in if flt 2 then (c, internal_error)
           else (sendVerificationEmail email token (insert_user newUser c),
                 Json 201 (user_summary newUser)))"

text \<open>\<^verbatim>\<open>POST /signup\<close> of the third section of server.js (lines 333-394): the
  same statements, with that section's mail link.\<close>

definition signup_v3 ::
  "libs \<Rightarrow> ambient \<Rightarrow> faults \<Rightarrow> client \<Rightarrow> string \<Rightarrow> string \<Rightarrow> string \<Rightarrow> client \<times> response" where
  "signup_v3 L amb flt c username email password =
     (if falsy username \<or> falsy email \<or> falsy password
      then (c, Json 400 (message ''All fields are required''))
      else if flt 0 then (c, internal_error)
      else if length (select_users_by_email (store c) email) > 0
      then (c, Json 400 (message ''This email is already associated with an account''))
      else if flt 1 then (c, internal_error)
      else if length (select_users_by_username (store c) username) > 0
      then (c, Json 400 (message ''This username is already taken''))
      else
        let passwordHash = bcrypt_hash L (fresh_salt amb) 13 password;
            token = to_hex (random_bytes amb);
            userId = fresh_uuid amb;
            newUser = \<lparr>u_id = userId, u_username = username, u_email = email,
                       u_password_hash = passwordHash, u_created_at = clock amb,
                       u_is_verified = False, u_token = Some token\<rparr>
        in if flt 2 then (c, internal_error)
           else (sendVerificationEmail_v3 email token (insert_user newUser c),
                 Json 201 (user_summary newUser)))"

text \<open>
  \<^verbatim>\<open>POST /signup\<close> of the first iteration (server.js lines 63-115). The token is
  drawn (line 96) and mailed (line 107), but the \<^verbatim>\<open>INSERT\<close> (lines 99-105) names
  the columns \<^verbatim>\<open>username, email, password_hash, created_at, is_verified\<close> only: no
  token reaches the row. The identifier is the column's default, here the ambient
  fresh identifier.
\<close>

definition signup_v1 ::
  "libs \<Rightarrow> ambient \<Rightarrow> faults \<Rightarrow> client \<Rightarrow> string \<Rightarrow> string \<Rightarrow> string \<Rightarrow> client \<times> response" where
  "signup_v1 L amb flt c username email password =
     (if falsy username \<or> falsy email \<or> falsy password
      then (c, Json 400 (message ''All fields are required''))
      else if flt 0 then (c, internal_error)
      else if length (select_users_by_email (store c) email) > 0
      then (c, Json 400 (message ''This email is already associated with an account''))
      else if flt 1 then (c, internal_error)
      else if length (select_users_by_username (store c) username) > 0
      then (c, Json 400 (message ''This username is already taken''))
      else
        let passwordHash = bcrypt_hash L (fresh_salt amb) 13 password;
            token = to_hex (random_bytes amb);
            newUser = \<lparr>u_id = fresh_uuid amb, u_username = username, u_email = email,
                       u_password_hash = passwordHash, u_created_at = clock amb,
                       u_is_verified = False, u_token = None\<rparr>
        in if flt 2 then (c, internal_error)
           else (sendVerificationEmail_v1 email token (insert_user newUser c),
                 Json 201 (user_summary newUser)))"

text \<open>
  \<^verbatim>\<open>GET /verify-email\<close> of the first iteration (server.js lines 117-140):
  \<^verbatim>\<open>UPDATE users SET is_verified = TRUE WHERE email = $1\<close>, with the query's token
  as the parameter.
\<close>

definition verify_email_v1 :: "faults \<Rightarrow> client \<Rightarrow> string \<Rightarrow> client \<times> response" where
  "verify_email_v1 flt c token =
     (if falsy token then (c, Json 400 (message ''Invalid token''))
      else if flt 0 then (c, internal_error)
      else
        let rowCount = length (filter (\<lambda>u. u_email u = token) (users (store c)));
            c' = c\<lparr>store := (store c)\<lparr>users :=
                   map (\<lambda>u. if u_email u = token then u\<lparr>u_is_verified := True\<rparr> else u)
                     (users (store c))\<rparr>\<rparr>
        in if rowCount = 0 then (c', Json 400 (message ''Invalid token''))
           else (c', Json 200 (message ''Email verified successfully'')))"

section \<open>Signin\<close>

text \<open>
  \<^verbatim>\<open>POST /users/signin\<close> (part_000 lines 239-293, server.js lines 419-473). The
  two fields are whatever JSON the body holds. \<^verbatim>\<open>inputName.includes("@")\<close>
  chooses the query: on a string it looks for the character, on an array for the
  element \<^verbatim>\<open>"@"\<close>, and on a number, a boolean or an object it throws (there is no
  such method), which the \<^verbatim>\<open>catch\<close> answers with the internal error before any
  query. The first row found is the user. \<^verbatim>\<open>bcrypt.compare\<close> rejects a password
  that is not a string, which the \<^verbatim>\<open>catch\<close> answers with the internal error too.
\<close>

definition signin_lookup :: "db \<Rightarrow> string \<Rightarrow> user list" where
  "signin_lookup d inputName =
     (if CHR ''@'' \<in> set inputName then select_users_by_email d inputName
      else select_users_by_username d inputName)"

text \<open>The rows of the signin query for any truthy input name; \<open>None\<close> when
  \<^verbatim>\<open>includes\<close> throws.\<close>

fun signin_rows :: "libs \<Rightarrow> db \<Rightarrow> json \<Rightarrow> user list option" where
  "signin_rows L d (JStr s) = Some (signin_lookup d s)"
| "signin_rows L d (JArr xs) =
     Some (if JStr ''@'' \<in> set xs then select_users_by_email d (pg_array L xs)
           else select_users_by_username d (pg_array L xs))"
| "signin_rows L d JNull = None"
| "signin_rows L d (JBool b) = None"
| "signin_rows L d (JNum n) = None"
| "signin_rows L d (JObj kvs) = None"

definition invalid_credentials :: response where
  "invalid_credentials = Json 401 (message ''Invalid username/email or password'')"

definition email_not_verified :: response where
  "email_not_verified = Json 400 (message ''Email not verified'')"

text \<open>\<^verbatim>\<open>await bcrypt.compare(password, user.password_hash)\<close>: \<open>None\<close> when it
  rejects.\<close>

fun password_match :: "libs \<Rightarrow> json \<Rightarrow> string \<Rightarrow> bool option" where
  "password_match L (JStr p) h = Some (bcrypt_compare L p h)"
| "password_match L JNull h = None"
| "password_match L (JBool b) h = None"
| "password_match L (JNum n) h = None"
| "password_match L (JArr xs) h = None"
| "password_match L (JObj kvs) h = None"

definition signin ::
  "libs \<Rightarrow> ambient \<Rightarrow> faults \<Rightarrow> client \<Rightarrow> json \<Rightarrow> json \<Rightarrow> client \<times> response" where
  "signin L amb flt c inputName password =
     (if js_falsy inputName \<or> js_falsy password
      then (c, Json 400 (message ''Username/email and password are required''))
      else
        (case signin_rows L (store c) inputName of
           None \<Rightarrow> (c, internal_error)
         | Some rows \<Rightarrow>
             if flt 0 then (c, internal_error)
             else
               (case rows of
                  [] \<Rightarrow> (c, invalid_credentials)
                | user # rest \<Rightarrow>
                    (case password_match L password (u_password_hash user) of
                       None \<Rightarrow> (c, internal_error)
                     | Some passwordMatch \<Rightarrow>
                         if \<not> passwordMatch then (c, invalid_credentials)
                         else if \<not> u_is_verified user then (c, email_not_verified)
                         else (c, Json 200
                                 (JObj [(''token'', JStr (jwt_sign L (u_id user) (clock amb))),
                                        (''expires'', JStr (hour_later_iso L (clock amb))),
                                        (''status'', JStr ''Success'')]))))))"

text \<open>\<^verbatim>\<open>POST /signin\<close> of the first iteration (server.js lines 142-190): the same
  checks; the success body is the token alone.\<close>

definition signin_v1 ::
  "libs \<Rightarrow> ambient \<Rightarrow> faults \<Rightarrow> client \<Rightarrow> json \<Rightarrow> json \<Rightarrow> client \<times> response" where
  "signin_v1 L amb flt c inputName password =
     (if js_falsy inputName \<or> js_falsy password
      then (c, Json 400 (message ''Username/email and password are required''))
      else
        (case signin_rows L (store c) inputName of
           None \<Rightarrow> (c, internal_error)
         | Some rows \<Rightarrow>
             if flt 0 then (c, internal_error)
             else
               (case rows of
                  [] \<Rightarrow> (c, invalid_credentials)
                | user # rest \<Rightarrow>
                    (case password_match L password (u_password_hash user) of
                       None \<Rightarrow> (c, internal_error)
                     | Some passwordMatch \<Rightarrow>
                         if \<not> passwordMatch then (c, invalid_credentials)
                         else if \<not> u_is_verified user then (c, email_not_verified)
                         else (c, Json 200
                                 (JObj [(''token'',
                                         JStr (jwt_sign L (u_id user) (clock amb)))]))))))"

text \<open>
  \<^verbatim>\<open>GET /get-users\<close> (server.js lines 192-201, part_000 lines 634-643):
  \<^verbatim>\<open>SELECT * FROM users\<close>, every column of every row, sent as the body.
\<close>

definition user_row :: "user \<Rightarrow> json" where
  "user_row u =
     JObj [(''id'', JStr (u_id u)), (''username'', JStr (u_username u)),
           (''email'', JStr (u_email u)), (''password_hash'', JStr (u_password_hash u)),
           (''created_at'', JNum (int (u_created_at u))),
           (''is_verified'', JBool (u_is_verified u)),
           (''token'', (case u_token u of None \<Rightarrow> JNull | Some t \<Rightarrow> JStr t))]"

definition get_users :: "faults \<Rightarrow> client \<Rightarrow> client \<times> response" where
  "get_users flt c =
     (if flt 0 then (c, internal_error)
      else (c, Json 200 (JArr (map user_row (users (store c))))))"


section \<open>The auth gate\<close>

text \<open>\<^verbatim>\<open>split(" ")\<close>: the pieces between single spaces; the empty string gives one
  empty piece.\<close>

fun split_space :: "string \<Rightarrow> string list" where
  "split_space [] = [[]]"
| "split_space (ch # cs) =
     (if ch = CHR '' '' then [] # split_space cs
      else (case split_space cs of [] \<Rightarrow> [[ch]] | w # ws \<Rightarrow> (ch # w) # ws))"

text \<open>
  \<^verbatim>\<open>authenticateToken\<close> (part_000 lines 119-130): the second piece of the
  \<^verbatim>\<open>authorization\<close> header is the token; a missing header, a header with no second
  piece or an empty one gives 401; a token \<^verbatim>\<open>jwt.verify\<close> refuses gives 403;
  otherwise the handler runs with the user identifier of the payload.
\<close>

definition authenticateToken :: "libs \<Rightarrow> ambient \<Rightarrow> string option \<Rightarrow> response + string" where
  "authenticateToken L amb authHeader =
     (case authHeader of
        None \<Rightarrow> Inl (SendStatus 401)
      | Some h \<Rightarrow>
          if falsy h then Inl (SendStatus 401)
          else (case split_space h of
                  scheme # token # rest \<Rightarrow>
                    if falsy token then Inl (SendStatus 401)
                    else (case jwt_verify L token (clock amb) of
                            None \<Rightarrow> Inl (SendStatus 403)
                          | Some userId \<Rightarrow> Inr userId)
                | _ \<Rightarrow> Inl (SendStatus 401)))"

section \<open>Projects, project emails and the cascade deletes\<close>

text \<open>
  The \<^verbatim>\<open>catch\<close> block of the two transactional handlers (part_000 lines 327-331
  and 406-410, server.js lines 500-504 and 565-569): \<^verbatim>\<open>await
  client.query("ROLLBACK")\<close>, then the 500 response. When this \<^verbatim>\<open>ROLLBACK\<close>, query
  5 of both handlers, rejects, the transaction stays as it is and the lines that would
  respond are never reached.
\<close>

definition catch_rollback :: "faults \<Rightarrow> client \<Rightarrow> client \<times> response" where
  "catch_rollback flt c =
     (if flt 5 then (c, NoResponse) else (sql_rollback c, internal_error))"

text \<open>\<^verbatim>\<open>DELETE FROM project_emails WHERE project_id IN
  (SELECT id FROM projects WHERE user_id = $1)\<close>\<close>

definition delete_emails_of_user :: "string \<Rightarrow> client \<Rightarrow> client" where
  "delete_emails_of_user userId c =
     c\<lparr>store := (store c)\<lparr>project_emails :=
         filter (\<lambda>e. pe_project_id e \<notin>
                   set (map p_id (filter (\<lambda>p. p_user_id p = userId) (projects (store c)))))
           (project_emails (store c))\<rparr>\<rparr>"

text \<open>\<^verbatim>\<open>DELETE FROM projects WHERE user_id = $1\<close>\<close>

definition delete_projects_of_user :: "string \<Rightarrow> client \<Rightarrow> client" where
  "delete_projects_of_user userId c =
     c\<lparr>store := (store c)\<lparr>projects :=
         filter (\<lambda>p. p_user_id p \<noteq> userId) (projects (store c))\<rparr>\<rparr>"

text \<open>\<^verbatim>\<open>DELETE FROM users WHERE id = $1\<close>\<close>

definition delete_user_row :: "string \<Rightarrow> client \<Rightarrow> client" where
  "delete_user_row userId c =
     c\<lparr>store := (store c)\<lparr>users := filter (\<lambda>u. u_id u \<noteq> userId) (users (store c))\<rparr>\<rparr>"

definition user_deleted :: response where
  "user_deleted =
     Json 200 (message ''User and associated projects and emails deleted successfully'')"

text \<open>
  \<^verbatim>\<open>DELETE /users/delete\<close> (part_000 lines 302-332; \<^verbatim>\<open>DELETE /delete-user\<close> of
  server.js lines 475-505), after the auth gate. Queries: 0 \<^verbatim>\<open>BEGIN\<close>, 1 the
  project emails, 2 the projects, 3 the user, 4 \<^verbatim>\<open>COMMIT\<close>, 5 the
  \<^verbatim>\<open>ROLLBACK\<close> of the \<^verbatim>\<open>catch\<close> block.
\<close>

definition delete_user :: "faults \<Rightarrow> client \<Rightarrow> string \<Rightarrow> client \<times> response" where
  "delete_user flt c userId =
     (if flt 0 then catch_rollback flt c
      else let c0 = sql_begin c in
      if flt 1 then catch_rollback flt c0
      else let c1 = delete_emails_of_user userId c0 in
      if flt 2 then catch_rollback flt c1
      else let c2 = delete_projects_of_user userId c1 in
      if flt 3 then catch_rollback flt c2
      else let c3 = delete_user_row userId c2 in
      if flt 4 then catch_rollback flt c3
      else (sql_commit c3, user_deleted))"

text \<open>\<^verbatim>\<open>RETURNING id, project_name, description, created_at\<close>\<close>

definition project_summary :: "project \<Rightarrow> json" where
  "project_summary p =
     JObj [(''id'', JNum (int (p_id p))), (''project_name'', JStr (p_project_name p)),
           (''description'', (case p_description p of None \<Rightarrow> JNull | Some t \<Rightarrow> JStr t)),
           (''created_at'', JNum (int (p_created_at p)))]"

text \<open>\<^verbatim>\<open>POST /projects/create\<close> (part_000 lines 341-367), after the auth gate.\<close>

definition create_project ::
  "ambient \<Rightarrow> faults \<Rightarrow> client \<Rightarrow> string \<Rightarrow> string \<Rightarrow> string option \<Rightarrow> client \<times> response" where
  "create_project amb flt c userId project_name description =
     (if falsy project_name then (c, Json 400 (message ''Project name is required''))
      else if flt 0 then (c, internal_error)
      else
        let newProject = \<lparr>p_id = next_id amb, p_user_id = userId,
                          p_project_name = project_name, p_description = description,
                          p_created_at = clock amb\<rparr>
        in (c\<lparr>store := (store c)\<lparr>projects := projects (store c) @ [newProject]\<rparr>\<rparr>,
            Json 201 (project_summary newProject)))"

text \<open>\<^verbatim>\<open>DELETE FROM project_emails WHERE project_id = $1\<close>\<close>

definition delete_emails_of_project :: "nat \<Rightarrow> client \<Rightarrow> client" where
  "delete_emails_of_project projectId c =
     c\<lparr>store := (store c)\<lparr>project_emails :=
         filter (\<lambda>e. pe_project_id e \<noteq> projectId) (project_emails (store c))\<rparr>\<rparr>"

text \<open>\<^verbatim>\<open>DELETE FROM projects WHERE id = $1 AND user_id = $2\<close>\<close>

definition owned_project :: "nat \<Rightarrow> string \<Rightarrow> project \<Rightarrow> bool" where
  "owned_project projectId userId p = (p_id p = projectId \<and> p_user_id p = userId)"

definition delete_owned_project :: "nat \<Rightarrow> string \<Rightarrow> client \<Rightarrow> client" where
  "delete_owned_project projectId userId c =
     c\<lparr>store := (store c)\<lparr>projects :=
         filter (\<lambda>p. \<not> owned_project projectId userId p) (projects (store c))\<rparr>\<rparr>"

definition not_found_or_not_owned :: response where
  "not_found_or_not_owned = Json 404 (message ''Project not found or not owned by the user'')"

text \<open>
  \<^verbatim>\<open>DELETE /projects/delete/:id\<close> (part_000 lines 376-411;
  \<^verbatim>\<open>DELETE /delete-project/:id\<close> of server.js lines 535-570), after the auth gate.
  Queries: 0 \<^verbatim>\<open>BEGIN\<close>, 1 the project emails, 2 the project, 3 the
  \<^verbatim>\<open>ROLLBACK\<close> of the zero-row branch, 4 \<^verbatim>\<open>COMMIT\<close>, 5 the
  \<^verbatim>\<open>ROLLBACK\<close> of the \<^verbatim>\<open>catch\<close> block.
\<close>

definition delete_project :: "faults \<Rightarrow> client \<Rightarrow> nat \<Rightarrow> string \<Rightarrow> client \<times> response" where
  "delete_project flt c projectId userId =
     (if flt 0 then catch_rollback flt c
      else let c0 = sql_begin c in
      if flt 1 then catch_rollback flt c0
      else let c1 = delete_emails_of_project projectId c0 in
      if flt 2 then catch_rollback flt c1
      else
        let rowCount = length (filter (owned_project projectId userId) (projects (store c1)));
            c2 = delete_owned_project projectId userId c1
        in if rowCount = 0
           then (if flt 3 then catch_rollback flt c2
                 else (sql_rollback c2, not_found_or_not_owned))
           else if flt 4 then catch_rollback flt c2
           else (sql_commit c2,
                 Json 200 (message ''Project and associated emails deleted successfully'')))"

text \<open>\<^verbatim>\<open>RETURNING id, project_id, email, added_at\<close>, which is every column of the
  row.\<close>

definition email_record :: "project_email \<Rightarrow> json" where
  "email_record e =
     JObj [(''id'', JNum (int (pe_id e))), (''project_id'', JNum (int (pe_project_id e))),
           (''email'', JStr (pe_email e)), (''added_at'', JNum (int (pe_added_at e)))]"

definition duplicate_email :: response where
  "duplicate_email = Json 400 (message ''Email already associated with this project'')"

definition same_pair :: "nat \<Rightarrow> string \<Rightarrow> project_email \<Rightarrow> bool" where
  "same_pair projectId email e = (pe_project_id e = projectId \<and> pe_email e = email)"

text \<open>
  \<^verbatim>\<open>POST /send-email/:projectId\<close> (part_000 lines 420-467;
  \<^verbatim>\<open>POST /collect-email/:projectId\<close> of server.js lines 572-619), with no auth
  gate. Queries: 0 the project check, 1 the pair check, 2 the \<^verbatim>\<open>INSERT\<close>.
\<close>

definition collect_email ::
  "ambient \<Rightarrow> faults \<Rightarrow> client \<Rightarrow> nat \<Rightarrow> string \<Rightarrow> client \<times> response" where
  "collect_email amb flt c projectId email =
     (if falsy email then (c, Json 400 (message ''Email is required''))
      else if flt 0 then (c, internal_error)
      else if length (filter (\<lambda>p. p_id p = projectId) (projects (store c))) = 0
      then (c, Json 404 (message ''Project not found''))
      else if flt 1 then (c, internal_error)
      else if length (filter (same_pair projectId email) (project_emails (store c))) > 0
      then (c, duplicate_email)
      else if flt 2 then (c, internal_error)
      else
        let newEmail = \<lparr>pe_id = next_id amb, pe_project_id = projectId, pe_email = email,
                        pe_added_at = clock amb\<rparr>
        in (c\<lparr>store := (store c)\<lparr>project_emails := project_emails (store c) @ [newEmail]\<rparr>\<rparr>,
            Json 201 (email_record newEmail)))"

text \<open>\<^verbatim>\<open>GET /emails/get/:projectId\<close> (part_000 lines 476-502), after the auth gate.\<close>

definition get_emails :: "faults \<Rightarrow> client \<Rightarrow> nat \<Rightarrow> string \<Rightarrow> client \<times> response" where
  "get_emails flt c projectId userId =
     (if flt 0 then (c, internal_error)
      else if length (filter (owned_project projectId userId) (projects (store c))) = 0
      then (c, not_found_or_not_owned)
      else if flt 1 then (c, internal_error)
      else (c, Json 200 (JArr (map email_record
              (filter (\<lambda>e. pe_project_id e = projectId) (project_emails (store c)))))))"

text \<open>\<^verbatim>\<open>DELETE /projects/:projectId/emails/delete/:emailId\<close> (part_000 lines
  511-551), after the auth gate.\<close>

definition delete_email :: "faults \<Rightarrow> client \<Rightarrow> nat \<Rightarrow> nat \<Rightarrow> string \<Rightarrow> client \<times> response" where
  "delete_email flt c projectId emailId userId =
     (if flt 0 then (c, internal_error)
      else if length (filter (owned_project projectId userId) (projects (store c))) = 0
      then (c, not_found_or_not_owned)
      else if flt 1 then (c, internal_error)
      else
        let hit = (\<lambda>e. pe_id e = emailId \<and> pe_project_id e = projectId);
            rowCount = length (filter hit (project_emails (store c)));
            c' = c\<lparr>store := (store c)\<lparr>project_emails :=
                   filter (\<lambda>e. \<not> hit e) (project_emails (store c))\<rparr>\<rparr>
        in if rowCount = 0
           then (c', Json 404 (message ''Email not found or not associated with this project''))
           else (c', Json 200 (message ''Email deleted successfully'')))"

section \<open>All operations\<close>

text \<open>
  One constructor per route of the sources; the protected ones carry the
  \<^verbatim>\<open>authorization\<close> header. \<open>SignupV1\<close>, \<open>VerifyEmailV1\<close>, \<open>SigninV1\<close> and
  \<open>GetUsers\<close> are the routes of the first iteration, \<open>SignupV3\<close> the signup of
  the third section of server.js.
\<close>

datatype request =
  Root
  | Signup string string string
  | VerifyEmail string
  | Signin json json
  | DeleteUser "string option"
  | CreateProject "string option" string "string option"
  | DeleteProject "string option" nat
  | CollectEmail nat string
  | GetEmails "string option" nat
  | DeleteEmail "string option" nat nat
  | SignupV1 string string string
  | VerifyEmailV1 string
  | SigninV1 json json
  | GetUsers
  | SignupV3 string string string

definition gated ::
  "libs \<Rightarrow> ambient \<Rightarrow> string option \<Rightarrow> client \<Rightarrow> (string \<Rightarrow> client \<times> response)
     \<Rightarrow> client \<times> response" where
  "gated L amb authHeader c handler =
     (case authenticateToken L amb authHeader of
        Inl refusal \<Rightarrow> (c, refusal)
      | Inr userId \<Rightarrow> handler userId)"

fun handle :: "libs \<Rightarrow> ambient \<Rightarrow> faults \<Rightarrow> client \<Rightarrow> request \<Rightarrow> client \<times> response" where
  "handle L amb flt c Root = (c, Json 200 (JStr ''Bowow''))"
| "handle L amb flt c (Signup username email password) =
     signup L amb flt c username email password"
| "handle L amb flt c (VerifyEmail token) = verify_email flt c token"
| "handle L amb flt c (Signin inputName password) = signin L amb flt c inputName password"
| "handle L amb flt c (DeleteUser h) = gated L amb h c (delete_user flt c)"
| "handle L amb flt c (CreateProject h project_name description) =
     gated L amb h c (\<lambda>userId. create_project amb flt c userId project_name description)"
| "handle L amb flt c (DeleteProject h projectId) =
     gated L amb h c (delete_project flt c projectId)"
| "handle L amb flt c (CollectEmail projectId email) =
     collect_email amb flt c projectId email"
| "handle L amb flt c (GetEmails h projectId) = gated L amb h c (get_emails flt c projectId)"
| "handle L amb flt c (DeleteEmail h projectId emailId) =
     gated L amb h c (delete_email flt c projectId emailId)"
| "handle L amb flt c (SignupV1 username email password) =
     signup_v1 L amb flt c username email password"
| "handle L amb flt c (VerifyEmailV1 token) = verify_email_v1 flt c token"
| "handle L amb flt c (SigninV1 inputName password) =
     signin_v1 L amb flt c inputName password"
| "handle L amb flt c GetUsers = get_users flt c"
| "handle L amb flt c (SignupV3 username email password) =
     signup_v3 L amb flt c username email password"

text \<open>A stand-in for the external functions, to run the handlers on examples: the
  hash is the salt followed by the password, the token is the user identifier after a
  tag, an array parameter is sent as empty braces and the expiry is a fixed text.\<close>

definition toy_libs :: libs where
  "toy_libs =
     \<lparr>bcrypt_hash = (\<lambda>s cost pw. s @ pw),
      bcrypt_compare = (\<lambda>pw h. drop 2 h = pw),
      jwt_sign = (\<lambda>userId t. ''jwt.'' @ userId),
      jwt_verify = (\<lambda>tok t. if take 4 tok = ''jwt.'' then Some (drop 4 tok) else None),
      pg_array = (\<lambda>xs. ''{}''),
      hour_later_iso = (\<lambda>t. ''1970-01-01T01:08:20.000Z'')\<rparr>"


section \<open>Predicates on responses and stores\<close>

text \<open>A response carries no session token: its body has no top-level \<open>token\<close>
  field. (The rows of \<open>get_users\<close> are elements of an array; their \<open>token\<close>
  column is the verification token.)\<close>

definition tokenless :: "client \<times> response \<Rightarrow> bool" where
  "tokenless r = (field ''token'' (body (snd r)) = None)"

text \<open>A response shows no password hash: the key \<open>password_hash\<close> occurs nowhere
  in its body.\<close>

definition hash_free :: "client \<times> response \<Rightarrow> bool" where
  "hash_free r = (\<not> mentions ''password_hash'' (body (snd r)))"

text \<open>
  Modelled from the spec: the schema of the tables is not among the sources. Section 3
  of the spec calls a project's owning user identifier a foreign reference: every
  project row names the identifier of a stored user.
\<close>

definition references_ok :: "db \<Rightarrow> bool" where
  "references_ok d =
     list_all (\<lambda>p. list_ex (\<lambda>u. u_id u = p_user_id p) (users d)) (projects d)"

text \<open>The fault schedule that rejects query \<open>k\<close> and no other, and the one that
  rejects every query from \<open>k\<close> on, as a connection lost at that point does.\<close>

definition fault_at :: "nat \<Rightarrow> faults" where
  "fault_at k = (\<lambda>i. i = k)"

definition faults_from :: "nat \<Rightarrow> faults" where
  "faults_from k = (\<lambda>i. k \<le> i)"

section \<open>Example data\<close>

text \<open>Two users, one unverified and one verified, each with one project holding one
  collected address; the hashes are those of \<open>toy_libs\<close> for the passwords
  \<open>pw-a\<close> and \<open>pw-b\<close>.\<close>

definition alice :: user where
  "alice = \<lparr>u_id = ''u-alice'', u_username = ''alice'', u_email = ''a@x.com'',
            u_password_hash = ''s1pw-a'', u_created_at = 100, u_is_verified = False,
            u_token = Some ''a1b2''\<rparr>"

definition bob :: user where
  "bob = \<lparr>u_id = ''u-bob'', u_username = ''bob'', u_email = ''b@x.com'',
          u_password_hash = ''s2pw-b'', u_created_at = 101, u_is_verified = True,
          u_token = Some ''c3d4''\<rparr>"

definition alice_project :: project where
  "alice_project = \<lparr>p_id = 1, p_user_id = ''u-alice'', p_project_name = ''news'',
                     p_description = None, p_created_at = 110\<rparr>"

definition bob_project :: project where
  "bob_project = \<lparr>p_id = 2, p_user_id = ''u-bob'', p_project_name = ''blog'',
                   p_description = Some ''posts'', p_created_at = 111\<rparr>"

definition alice_reader :: project_email where
  "alice_reader = \<lparr>pe_id = 1, pe_project_id = 1, pe_email = ''r1@x.com'', pe_added_at = 120\<rparr>"

definition bob_reader :: project_email where
  "bob_reader = \<lparr>pe_id = 2, pe_project_id = 2, pe_email = ''r2@x.com'', pe_added_at = 121\<rparr>"

definition demo_db :: db where
  "demo_db = \<lparr>users = [alice, bob], projects = [alice_project, bob_project],
              project_emails = [alice_reader, bob_reader]\<rparr>"

definition demo_client :: client where
  "demo_client = \<lparr>store = demo_db, txn = None, outbox = []\<rparr>"

definition demo_ambient :: ambient where
  "demo_ambient = \<lparr>clock = 500, fresh_uuid = ''u-carol'', random_bytes = 0xC0FFEE,
                    fresh_salt = ''s3'', next_id = 7\<rparr>"

lemmas demo_defs = demo_client_def demo_db_def alice_def bob_def alice_project_def
  bob_project_def alice_reader_def bob_reader_def demo_ambient_def no_faults_def
  fault_at_def faults_from_def toy_libs_def

section \<open>Consuming a verification token\<close>

lemma set_verified_idem: "set_verified t (set_verified t u) = set_verified t u"
  by (simp add: set_verified_def holds_token_def)

lemma holds_set_verified: "holds_token t (set_verified s u) = holds_token t u"
  by (simp add: set_verified_def holds_token_def)

lemma map_set_verified_none:
  "\<not> list_ex (holds_token t) us \<Longrightarrow> map (set_verified t) us = us"
  by (induction us) (simp_all add: set_verified_def)

lemma filter_holds_empty:
  "(filter (holds_token t) us = []) = (\<not> list_ex (holds_token t) us)"
  by (induction us) simp_all

lemma filter_holds_after:
  "(filter (holds_token t \<circ> set_verified s) us = []) = (\<not> list_ex (holds_token t) us)"
  by (induction us) (simp_all add: holds_set_verified)

text \<open>
  C1, as stated, fails: the \<^verbatim>\<open>UPDATE\<close> does not clear the token, so the second
  consumption of a token matches the same row again and answers with success, not with
  the invalid-token response. Alice holds the token \<open>a1b2\<close>; it is consumed twice.
\<close>

theorem verify_email_second_consumption_counterexample:
  "snd (verify_email no_faults demo_client ''a1b2'')
     = Json 200 (message ''Email verified successfully'')
   \<and> snd (verify_email no_faults (fst (verify_email no_faults demo_client ''a1b2'')) ''a1b2'')
     = Json 200 (message ''Email verified successfully'')
   \<and> snd (verify_email no_faults (fst (verify_email no_faults demo_client ''a1b2'')) ''a1b2'')
     \<noteq> Json 400 (message ''Invalid token'')"
  by (simp add: verify_email_def Let_def falsy_def holds_token_def set_verified_def
      message_def demo_defs)

text \<open>
  C1, amended: when the \<^verbatim>\<open>UPDATE\<close> is not rejected, consuming a non-empty token
  that some user holds sets the verified flag of every holder to true, changes nothing
  else, and answers with success; a second consumption of the same token answers with
  success again and leaves the store as the first one left it. Consuming an empty token
  or a token that no user holds answers with the invalid-token response and leaves the
  store unchanged.
\<close>

theorem verify_email_repeatable:
  assumes "\<not> flt 0"
  shows "(falsy t \<or> \<not> list_ex (holds_token t) (users (store c))
            \<longrightarrow> verify_email flt c t = (c, Json 400 (message ''Invalid token'')))
       \<and> (\<not> falsy t \<and> list_ex (holds_token t) (users (store c))
            \<longrightarrow> verify_email flt c t =
                  (c\<lparr>store := (store c)\<lparr>users := map (set_verified t) (users (store c))\<rparr>\<rparr>,
                   Json 200 (message ''Email verified successfully''))
              \<and> verify_email flt (fst (verify_email flt c t)) t =
                  (fst (verify_email flt c t), Json 200 (message ''Email verified successfully'')))"
proof (intro conjI impI)
  assume "falsy t \<or> \<not> list_ex (holds_token t) (users (store c))"
  then show "verify_email flt c t = (c, Json 400 (message ''Invalid token''))"
    using assms
    by (auto simp: verify_email_def Let_def filter_holds_empty map_set_verified_none)
next
  assume h: "\<not> falsy t \<and> list_ex (holds_token t) (users (store c))"
  then show first: "verify_email flt c t =
                  (c\<lparr>store := (store c)\<lparr>users := map (set_verified t) (users (store c))\<rparr>\<rparr>,
                   Json 200 (message ''Email verified successfully''))"
    using assms by (simp add: verify_email_def Let_def filter_holds_empty)
  show "verify_email flt (fst (verify_email flt c t)) t =
                  (fst (verify_email flt c t), Json 200 (message ''Email verified successfully''))"
    using assms h unfolding first
    by (simp add: verify_email_def Let_def filter_holds_after set_verified_idem)
qed

theorem verify_email_repeatable_witness:
  "\<not> no_faults 0 \<and> \<not> falsy ''a1b2''
   \<and> list_ex (holds_token ''a1b2'') (users (store demo_client))
   \<and> verify_email no_faults demo_client ''a1b2'' =
       (demo_client\<lparr>store := demo_db\<lparr>users := [alice\<lparr>u_is_verified := True\<rparr>, bob]\<rparr>\<rparr>,
        Json 200 (message ''Email verified successfully''))
   \<and> verify_email no_faults (fst (verify_email no_faults demo_client ''a1b2'')) ''a1b2'' =
       (fst (verify_email no_faults demo_client ''a1b2''),
        Json 200 (message ''Email verified successfully''))
   \<and> \<not> list_ex (holds_token ''zz'') (users (store demo_client))
   \<and> verify_email no_faults demo_client ''zz'' = (demo_client, Json 400 (message ''Invalid token''))"
  using verify_email_repeatable [of no_faults "''a1b2''" demo_client]
    verify_email_repeatable [of no_faults "''zz''" demo_client]
  by (simp add: verify_email_def Let_def falsy_def holds_token_def set_verified_def demo_defs)


section \<open>The cascade deletes\<close>

lemma rollback_idle: "txn c = None \<Longrightarrow> sql_rollback c = c"
  by (simp add: sql_rollback_def)

lemma rollback_begin: "txn c = None \<Longrightarrow> sql_rollback (sql_begin c) = c"
  by (simp add: sql_rollback_def sql_begin_def)

lemma rollback_in_txn: "txn c = None \<Longrightarrow> sql_rollback ((sql_begin c)\<lparr>store := d\<rparr>) = c"
  by (cases c) (simp add: sql_rollback_def sql_begin_def)

lemma store_begin: "store (sql_begin c) = store c"
  by (simp add: sql_begin_def split: option.splits)

lemmas cascade_steps = delete_emails_of_user_def delete_projects_of_user_def
  delete_user_row_def delete_emails_of_project_def delete_owned_project_def

subsection \<open>The connection is idle between requests\<close>

text \<open>Every handler closes the transaction it opens, on every branch but the one
  where the \<^verbatim>\<open>ROLLBACK\<close> of a \<^verbatim>\<open>catch\<close> block is rejected: a connection with
  no open transaction has none after any request that meets no such rejection.\<close>

lemma idle_rollback: "txn (sql_rollback c) = None"
  by (simp add: sql_rollback_def split: option.splits)

lemma idle_commit: "txn (sql_commit c) = None"
  by (simp add: sql_commit_def)

lemma idle_catch: "\<not> flt 5 \<Longrightarrow> txn (fst (catch_rollback flt c)) = None"
  by (simp add: catch_rollback_def idle_rollback)

lemma idle_delete_user: "\<not> flt 5 \<Longrightarrow> txn (fst (delete_user flt c uid)) = None"
  by (simp add: delete_user_def Let_def idle_catch idle_commit)

lemma idle_delete_project: "\<not> flt 5 \<Longrightarrow> txn (fst (delete_project flt c pid uid)) = None"
  by (simp add: delete_project_def Let_def idle_catch idle_commit idle_rollback)

lemma idle_plain:
  assumes "txn c = None"
  shows "txn (fst (signup L amb flt c n e pw)) = None"
    "txn (fst (signup_v3 L amb flt c n e pw)) = None"
    "txn (fst (signup_v1 L amb flt c n e pw)) = None"
    "txn (fst (verify_email flt c t)) = None"
    "txn (fst (verify_email_v1 flt c t)) = None"
    "txn (fst (signin L amb flt c i p)) = None"
    "txn (fst (signin_v1 L amb flt c i p)) = None"
    "txn (fst (get_users flt c)) = None"
    "txn (fst (create_project amb flt c uid n d)) = None"
    "txn (fst (collect_email amb flt c pid e)) = None"
    "txn (fst (get_emails flt c pid uid)) = None"
    "txn (fst (delete_email flt c pid eid uid)) = None"
  using assms
  by (simp_all add: signup_def signup_v3_def signup_v1_def verify_email_def
      verify_email_v1_def signin_def signin_v1_def get_users_def create_project_def
      collect_email_def get_emails_def delete_email_def Let_def insert_user_def
      sendVerificationEmail_def sendVerificationEmail_v3_def sendVerificationEmail_v1_def
      split: list.splits option.splits)

lemma idle_gated:
  assumes "txn c = None" and "\<And>uid. txn (fst (h uid)) = None"
  shows "txn (fst (gated L amb hdr c h)) = None"
  using assms by (simp add: gated_def split: sum.splits)

lemma handle_keeps_idle:
  "txn c = None \<Longrightarrow> \<not> flt 5 \<Longrightarrow> txn (fst (handle L amb flt c req)) = None"
  by (cases req)
    (simp_all add: idle_plain idle_gated idle_delete_user idle_delete_project)

subsection \<open>Delete user and delete project\<close>

text \<open>What a delete-user request that meets no rejected query leaves behind.\<close>

lemma delete_user_run:
  assumes "txn c = None"
    and "\<not> flt 0 \<and> \<not> flt 1 \<and> \<not> flt 2 \<and> \<not> flt 3 \<and> \<not> flt 4"
  shows "delete_user flt c userId =
      (c\<lparr>store :=
           \<lparr>users = filter (\<lambda>u. u_id u \<noteq> userId) (users (store c)),
            projects = filter (\<lambda>p. p_user_id p \<noteq> userId) (projects (store c)),
            project_emails =
              filter (\<lambda>e. pe_project_id e \<notin>
                        set (map p_id (filter (\<lambda>p. p_user_id p = userId) (projects (store c)))))
                (project_emails (store c))\<rparr>\<rparr>,
       user_deleted)"
  using assms
  by (cases c) (simp add: delete_user_def Let_def cascade_steps sql_begin_def sql_commit_def)

text \<open>
  On a connection with no open transaction, delete-user removes the project emails
  under the user's projects (selected while the projects are still there), then the
  user's projects, then the user; and if \<^verbatim>\<open>BEGIN\<close>, one of the three deletes or
  \<^verbatim>\<open>COMMIT\<close> is rejected and the \<^verbatim>\<open>ROLLBACK\<close> of the \<^verbatim>\<open>catch\<close> block is
  not, the connection is left exactly as it was and the answer is the internal error.
\<close>

lemma delete_user_rolls_back:
  assumes "txn c = None" and "\<not> flt 5"
  shows "(flt 0 \<or> flt 1 \<or> flt 2 \<or> flt 3 \<or> flt 4
            \<longrightarrow> delete_user flt c userId = (c, internal_error))
       \<and> (\<not> flt 0 \<and> \<not> flt 1 \<and> \<not> flt 2 \<and> \<not> flt 3 \<and> \<not> flt 4
            \<longrightarrow> delete_user flt c userId =
                  (c\<lparr>store :=
                       \<lparr>users = filter (\<lambda>u. u_id u \<noteq> userId) (users (store c)),
                        projects = filter (\<lambda>p. p_user_id p \<noteq> userId) (projects (store c)),
                        project_emails =
                          filter (\<lambda>e. pe_project_id e \<notin>
                                    set (map p_id (filter (\<lambda>p. p_user_id p = userId)
                                                     (projects (store c)))))
                            (project_emails (store c))\<rparr>\<rparr>,
                   user_deleted))"
proof (intro conjI impI)
  assume "flt 0 \<or> flt 1 \<or> flt 2 \<or> flt 3 \<or> flt 4"
  then show "delete_user flt c userId = (c, internal_error)"
    using assms
    by (auto simp: delete_user_def Let_def catch_rollback_def cascade_steps
        rollback_idle rollback_begin rollback_in_txn)
next
  assume "\<not> flt 0 \<and> \<not> flt 1 \<and> \<not> flt 2 \<and> \<not> flt 3 \<and> \<not> flt 4"
  then show "delete_user flt c userId =
                  (c\<lparr>store :=
                       \<lparr>users = filter (\<lambda>u. u_id u \<noteq> userId) (users (store c)),
                        projects = filter (\<lambda>p. p_user_id p \<noteq> userId) (projects (store c)),
                        project_emails =
                          filter (\<lambda>e. pe_project_id e \<notin>
                                    set (map p_id (filter (\<lambda>p. p_user_id p = userId)
                                                     (projects (store c)))))
                            (project_emails (store c))\<rparr>\<rparr>,
                   user_deleted)"
    using assms by (intro delete_user_run) auto
qed

text \<open>
  C2 fails where the \<^verbatim>\<open>ROLLBACK\<close> of the \<^verbatim>\<open>catch\<close> block is rejected as well,
  as it is when the connection is lost during the cascade. Alice asks for her deletion;
  the emails are deleted, then the connection drops: the delete of the projects is
  rejected, the \<^verbatim>\<open>catch\<close> block awaits a \<^verbatim>\<open>ROLLBACK\<close> that is rejected too, and
  the handler ends without a response, not with the internal error; the transaction is
  left open with the emails deleted. With the \<^verbatim>\<open>ROLLBACK\<close> accepted (only the
  delete of the projects rejected) the same request answers with the internal error
  and restores the store.
\<close>

theorem delete_user_no_response:
  "snd (delete_user (faults_from 2) demo_client ''u-alice'') = NoResponse
   \<and> snd (delete_user (faults_from 2) demo_client ''u-alice'') \<noteq> internal_error
   \<and> txn (fst (delete_user (faults_from 2) demo_client ''u-alice'')) = Some demo_db
   \<and> project_emails (store (fst (delete_user (faults_from 2) demo_client ''u-alice'')))
       = [bob_reader]
   \<and> delete_user (fault_at 2) demo_client ''u-alice'' = (demo_client, internal_error)"
  unfolding delete_user_def Let_def cascade_steps
  by (simp add: catch_rollback_def sql_begin_def sql_rollback_def internal_error_def
      demo_defs)

lemma not_owned_by_other:
  assumes "distinct (map p_id ps)" and "p \<in> set ps" and "p_user_id p \<noteq> B"
  shows "filter (owned_project (p_id p) B) ps = []"
proof -
  have "\<And>q. q \<in> set ps \<Longrightarrow> p_id q = p_id p \<Longrightarrow> q = p"
    using assms(1,2) by (meson distinct_map inj_onD)
  then show ?thesis
    using assms(3) by (auto simp: filter_empty_conv owned_project_def)
qed

text \<open>
  C3: project identifiers being unique (the primary key), a delete-project request for a
  project of user A made as another user B, when none of \<^verbatim>\<open>BEGIN\<close>, the two
  deletes and the \<^verbatim>\<open>ROLLBACK\<close> of the zero-row branch is rejected, gets the
  not-found-or-not-owned response and leaves the connection, and so the project and its
  emails, exactly as they were. The connection is also left as it was whatever other
  queries are rejected, as long as the \<^verbatim>\<open>ROLLBACK\<close> of the \<^verbatim>\<open>catch\<close> block is
  not.
\<close>

theorem delete_project_by_other_user:
  assumes "txn c = None"
    and "distinct (map p_id (projects (store c)))"
    and "p \<in> set (projects (store c))"
    and "p_user_id p = A" and "B \<noteq> A"
  shows "(\<not> flt 0 \<and> \<not> flt 1 \<and> \<not> flt 2 \<and> \<not> flt 3
            \<longrightarrow> delete_project flt c (p_id p) B = (c, not_found_or_not_owned))
       \<and> (\<not> flt 5 \<longrightarrow> fst (delete_project flt c (p_id p) B) = c)"
proof -
  have none: "filter (owned_project (p_id p) B) (projects (store c)) = []"
    using assms by (intro not_owned_by_other) auto
  show ?thesis
    using assms(1) none
    by (simp add: delete_project_def Let_def catch_rollback_def cascade_steps
        rollback_idle rollback_begin rollback_in_txn store_begin)
qed

text \<open>The example: Bob asks to delete Alice's project. Inside the transaction the
  project's email is gone; after the rollback it is back.\<close>

theorem delete_project_by_other_user_witness:
  "txn demo_client = None
   \<and> distinct (map p_id (projects (store demo_client)))
   \<and> alice_project \<in> set (projects (store demo_client))
   \<and> p_user_id alice_project = ''u-alice'' \<and> ''u-bob'' \<noteq> ''u-alice''
   \<and> \<not> no_faults 0 \<and> \<not> no_faults 1 \<and> \<not> no_faults 2 \<and> \<not> no_faults 3
   \<and> project_emails (store (delete_emails_of_project (p_id alice_project) (sql_begin demo_client)))
       = [bob_reader]
   \<and> delete_project no_faults demo_client (p_id alice_project) ''u-bob''
       = (demo_client, not_found_or_not_owned)"
proof -
  have h: "txn demo_client = None" "distinct (map p_id (projects (store demo_client)))"
    "alice_project \<in> set (projects (store demo_client))"
    "p_user_id alice_project = ''u-alice''" "''u-bob'' \<noteq> ''u-alice''"
    by (simp_all add: demo_defs)
  have n: "\<not> no_faults 0 \<and> \<not> no_faults 1 \<and> \<not> no_faults 2 \<and> \<not> no_faults 3"
    by (simp add: no_faults_def)
  have e: "project_emails (store (delete_emails_of_project (p_id alice_project)
             (sql_begin demo_client))) = [bob_reader]"
    by (simp add: delete_emails_of_project_def sql_begin_def demo_defs)
  show ?thesis
    using delete_project_by_other_user [OF h, of no_faults] h n e
    by simp
qed

text \<open>
  C7: project identifiers being unique, a delete-user request for A that meets no
  rejected query leaves no user row of A, no project of A and no email under a project
  of A, and leaves the user rows, the projects and the emails under the projects of any
  other user B as they were.
\<close>

theorem delete_user_isolation:
  assumes "txn c = None"
    and "\<not> flt 0 \<and> \<not> flt 1 \<and> \<not> flt 2 \<and> \<not> flt 3 \<and> \<not> flt 4"
    and "distinct (map p_id (projects (store c)))"
    and "A \<noteq> B"
  shows "filter (\<lambda>u. u_id u = A) (users (store (fst (delete_user flt c A)))) = []
       \<and> filter (\<lambda>p. p_user_id p = A) (projects (store (fst (delete_user flt c A)))) = []
       \<and> filter (\<lambda>e. pe_project_id e \<in>
                    set (map p_id (filter (\<lambda>p. p_user_id p = A) (projects (store c)))))
           (project_emails (store (fst (delete_user flt c A)))) = []
       \<and> filter (\<lambda>u. u_id u = B) (users (store (fst (delete_user flt c A))))
           = filter (\<lambda>u. u_id u = B) (users (store c))
       \<and> filter (\<lambda>p. p_user_id p = B) (projects (store (fst (delete_user flt c A))))
           = filter (\<lambda>p. p_user_id p = B) (projects (store c))
       \<and> filter (\<lambda>e. pe_project_id e \<in>
                    set (map p_id (filter (\<lambda>p. p_user_id p = B) (projects (store c)))))
           (project_emails (store (fst (delete_user flt c A))))
           = filter (\<lambda>e. pe_project_id e \<in>
                    set (map p_id (filter (\<lambda>p. p_user_id p = B) (projects (store c)))))
           (project_emails (store c))"
proof -
  have after: "store (fst (delete_user flt c A)) =
      \<lparr>users = filter (\<lambda>u. u_id u \<noteq> A) (users (store c)),
       projects = filter (\<lambda>p. p_user_id p \<noteq> A) (projects (store c)),
       project_emails =
         filter (\<lambda>e. pe_project_id e \<notin>
                   set (map p_id (filter (\<lambda>p. p_user_id p = A) (projects (store c)))))
           (project_emails (store c))\<rparr>"
    by (simp add: delete_user_run [OF assms(1,2)])
  have uniq: "\<And>p q. p \<in> set (projects (store c)) \<Longrightarrow> q \<in> set (projects (store c))
                \<Longrightarrow> p_id p = p_id q \<Longrightarrow> p = q"
    using assms(3) by (meson distinct_map inj_onD)
  have sep: "\<And>e. pe_project_id e \<in>
                    set (map p_id (filter (\<lambda>p. p_user_id p = B) (projects (store c))))
             \<Longrightarrow> pe_project_id e \<notin>
                    set (map p_id (filter (\<lambda>p. p_user_id p = A) (projects (store c))))"
    using uniq assms(4) by fastforce
  have u: "filter (\<lambda>u. u_id u = B) (filter (\<lambda>u. u_id u \<noteq> A) (users (store c)))
             = filter (\<lambda>u. u_id u = B) (users (store c))"
    using assms(4) by (auto intro: filter_cong)
  have p: "filter (\<lambda>p. p_user_id p = B) (filter (\<lambda>p. p_user_id p \<noteq> A) (projects (store c)))
             = filter (\<lambda>p. p_user_id p = B) (projects (store c))"
    using assms(4) by (auto intro: filter_cong)
  have e: "filter (\<lambda>e. pe_project_id e \<in>
                    set (map p_id (filter (\<lambda>p. p_user_id p = B) (projects (store c)))))
             (filter (\<lambda>e. pe_project_id e \<notin>
                   set (map p_id (filter (\<lambda>p. p_user_id p = A) (projects (store c)))))
               (project_emails (store c)))
           = filter (\<lambda>e. pe_project_id e \<in>
                    set (map p_id (filter (\<lambda>p. p_user_id p = B) (projects (store c)))))
               (project_emails (store c))"
    unfolding filter_filter using sep by (intro filter_cong) auto
  show ?thesis
    unfolding after by (simp only: db.simps u p e) (simp add: filter_empty_conv)
qed

theorem delete_user_isolation_witness:
  "txn demo_client = None
   \<and> \<not> no_faults 0 \<and> \<not> no_faults 1 \<and> \<not> no_faults 2 \<and> \<not> no_faults 3 \<and> \<not> no_faults 4
   \<and> distinct (map p_id (projects (store demo_client))) \<and> ''u-alice'' \<noteq> ''u-bob''
   \<and> store (fst (delete_user no_faults demo_client ''u-alice''))
       = \<lparr>users = [bob], projects = [bob_project], project_emails = [bob_reader]\<rparr>
   \<and> filter (\<lambda>u. u_id u = ''u-bob'') (users (store demo_client)) = [bob]
   \<and> filter (\<lambda>p. p_user_id p = ''u-bob'') (projects (store demo_client)) = [bob_project]
   \<and> filter (\<lambda>e. pe_project_id e \<in>
                set (map p_id (filter (\<lambda>p. p_user_id p = ''u-bob'') (projects (store demo_client)))))
       (project_emails (store demo_client)) = [bob_reader]"
proof -
  have h: "txn demo_client = None"
    "\<not> no_faults 0 \<and> \<not> no_faults 1 \<and> \<not> no_faults 2 \<and> \<not> no_faults 3 \<and> \<not> no_faults 4"
    "distinct (map p_id (projects (store demo_client)))" "''u-alice'' \<noteq> ''u-bob''"
    by (simp_all add: demo_defs)
  have run: "store (fst (delete_user no_faults demo_client ''u-alice''))
       = \<lparr>users = [bob], projects = [bob_project], project_emails = [bob_reader]\<rparr>"
    unfolding delete_user_run [OF h(1,2)] by (simp add: demo_defs)
  show ?thesis
    using delete_user_isolation [OF h] h run
    by (simp add: demo_defs)
qed

text \<open>
  C10: a delete-user request that meets no rejected query answers with the same
  confirmation whatever it removed. Where every project names a stored user and no
  stored user has the request's identifier, it commits and leaves the connection as it
  was. A second request for the same identifier, right after the first, removes nothing
  and gets the same confirmation.
\<close>

theorem delete_user_idempotent:
  assumes "txn c = None"
    and "\<not> flt 0 \<and> \<not> flt 1 \<and> \<not> flt 2 \<and> \<not> flt 3 \<and> \<not> flt 4"
  shows "snd (delete_user flt c userId) = user_deleted
       \<and> (references_ok (store c) \<and> \<not> list_ex (\<lambda>u. u_id u = userId) (users (store c))
            \<longrightarrow> delete_user flt c userId = (c, user_deleted))
       \<and> delete_user flt (fst (delete_user flt c userId)) userId
           = (fst (delete_user flt c userId), user_deleted)"
proof -
  have keep: "\<And>P xs. \<not> list_ex P xs \<Longrightarrow> filter (\<lambda>x. \<not> P x) xs = xs"
    by (simp add: list_ex_iff)
  have gone: "\<And>P xs. filter P (filter (\<lambda>x. \<not> P x) xs) = []"
    by (simp add: filter_empty_conv)
  note run = delete_user_run [OF _ assms(2), of _ userId]
  have first: "snd (delete_user flt c userId) = user_deleted"
    by (simp add: run [OF assms(1)])
  have unchanged: "delete_user flt c userId = (c, user_deleted)"
    if "references_ok (store c) \<and> \<not> list_ex (\<lambda>u. u_id u = userId) (users (store c))"
  proof -
    have "\<not> list_ex (\<lambda>p. p_user_id p = userId) (projects (store c))"
      using that by (auto simp: references_ok_def list_all_iff list_ex_iff)
    then have "filter (\<lambda>p. p_user_id p = userId) (projects (store c)) = []"
      "filter (\<lambda>p. p_user_id p \<noteq> userId) (projects (store c)) = projects (store c)"
      by (simp_all add: list_ex_iff filter_empty_conv)
    then show ?thesis
      using that assms(1) unfolding run [OF assms(1)]
      by (cases c) (simp add: keep)
  qed
  have again: "delete_user flt (fst (delete_user flt c userId)) userId
           = (fst (delete_user flt c userId), user_deleted)"
  proof -
    have idle: "txn (fst (delete_user flt c userId)) = None"
      using assms(1) by (simp add: run [OF assms(1)])
    show ?thesis
      unfolding run [OF idle] unfolding run [OF assms(1)]
      by (simp add: gone)
  qed
  show ?thesis using first unchanged again by blast
qed

theorem delete_user_idempotent_witness:
  "txn demo_client = None
   \<and> \<not> no_faults 0 \<and> \<not> no_faults 1 \<and> \<not> no_faults 2 \<and> \<not> no_faults 3 \<and> \<not> no_faults 4
   \<and> references_ok (store demo_client)
   \<and> \<not> list_ex (\<lambda>u. u_id u = ''u-ghost'') (users (store demo_client))
   \<and> delete_user no_faults demo_client ''u-ghost'' = (demo_client, user_deleted)
   \<and> snd (delete_user no_faults demo_client ''u-alice'') = user_deleted
   \<and> delete_user no_faults (fst (delete_user no_faults demo_client ''u-alice'')) ''u-alice''
       = (fst (delete_user no_faults demo_client ''u-alice''), user_deleted)"
proof -
  have h: "txn demo_client = None"
    "\<not> no_faults 0 \<and> \<not> no_faults 1 \<and> \<not> no_faults 2 \<and> \<not> no_faults 3 \<and> \<not> no_faults 4"
    by (simp_all add: demo_defs)
  have g: "references_ok (store demo_client)"
    "\<not> list_ex (\<lambda>u. u_id u = ''u-ghost'') (users (store demo_client))"
    by (simp_all add: references_ok_def demo_defs)
  show ?thesis
    using delete_user_idempotent [OF h, of "''u-ghost''"]
      delete_user_idempotent [OF h, of "''u-alice''"] h g
    by simp
qed


section \<open>Signin\<close>

text \<open>
  With passwords that are strings, a signin whose identifier matches no stored user and
  a signin whose identifier is found but whose password bcrypt refuses get the same
  response, the invalid-credentials one, whatever the stores, clocks and inputs of the
  two requests; a signin whose identifier is found and whose password matches, for a
  user not yet verified, gets the email-not-verified response, which is another one.
  (The lookups are not rejected.)
\<close>

lemma signin_strings_indistinguishable:
  assumes "\<not> flt 0" and "\<not> flt' 0" and "\<not> flt'' 0"
    and "\<not> falsy n \<and> \<not> falsy pw \<and> \<not> falsy n' \<and> \<not> falsy pw' \<and> \<not> falsy n'' \<and> \<not> falsy pw''"
    and "signin_lookup (store c) n = []"
    and "signin_lookup (store c') n' = u' # rest'"
    and "\<not> bcrypt_compare L pw' (u_password_hash u')"
    and "signin_lookup (store c'') n'' = u'' # rest''"
    and "bcrypt_compare L pw'' (u_password_hash u'')"
    and "\<not> u_is_verified u''"
  shows "snd (signin L amb flt c (JStr n) (JStr pw))
           = snd (signin L amb' flt' c' (JStr n') (JStr pw'))
       \<and> snd (signin L amb flt c (JStr n) (JStr pw)) = invalid_credentials
       \<and> snd (signin L amb'' flt'' c'' (JStr n'') (JStr pw'')) = email_not_verified
       \<and> snd (signin L amb'' flt'' c'' (JStr n'') (JStr pw''))
           \<noteq> snd (signin L amb flt c (JStr n) (JStr pw))"
proof -
  have a: "signin L amb flt c (JStr n) (JStr pw) = (c, invalid_credentials)"
    using assms(1,4,5) by (simp add: signin_def)
  have b: "signin L amb' flt' c' (JStr n') (JStr pw') = (c', invalid_credentials)"
    using assms(2,4,6,7) by (simp add: signin_def)
  have d: "signin L amb'' flt'' c'' (JStr n'') (JStr pw'') = (c'', email_not_verified)"
    using assms(3,4,8,9,10) by (simp add: signin_def)
  have "email_not_verified \<noteq> invalid_credentials"
    by (simp add: email_not_verified_def invalid_credentials_def)
  then show ?thesis
    by (simp add: a b d)
qed

text \<open>
  C4 fails on a password that is not a string. The body
  \<^verbatim>\<open>{"inputName": "nobody", "password": 12345}\<close> names no stored user and is
  answered with the invalid-credentials response before bcrypt is called; the body
  \<^verbatim>\<open>{"inputName": "bob", "password": 12345}\<close> names Bob, whose password it is not:
  \<^verbatim>\<open>bcrypt.compare\<close> rejects the number and the \<^verbatim>\<open>catch\<close> answers with the
  internal error. The two responses differ, and they tell the caller that Bob exists.
  With the string \<^verbatim>\<open>"12345"\<close> the two answers are the same.
\<close>

theorem signin_number_password_distinguishes:
  "signin toy_libs demo_ambient no_faults demo_client (JStr ''nobody'') (JNum 12345)
     = (demo_client, Json 401 (message ''Invalid username/email or password''))
   \<and> signin toy_libs demo_ambient no_faults demo_client (JStr ''bob'') (JNum 12345)
     = (demo_client, Json 500 (message ''Internal server error''))
   \<and> snd (signin toy_libs demo_ambient no_faults demo_client (JStr ''nobody'') (JNum 12345))
     \<noteq> snd (signin toy_libs demo_ambient no_faults demo_client (JStr ''bob'') (JNum 12345))
   \<and> snd (signin toy_libs demo_ambient no_faults demo_client (JStr ''nobody'') (JStr ''12345''))
     = snd (signin toy_libs demo_ambient no_faults demo_client (JStr ''bob'') (JStr ''12345''))"
  by (simp add: signin_def signin_lookup_def select_users_by_username_def falsy_def
      invalid_credentials_def internal_error_def message_def demo_defs)

subsection \<open>Session tokens\<close>

lemma signin_rows_stored:
  assumes "signin_rows L d i = Some rows" and "rows = u # rest"
  shows "u \<in> set (users d)"
proof -
  have "set rows \<subseteq> set (users d)"
    using assms(1)
    by (cases i)
      (auto simp: signin_lookup_def select_users_by_email_def select_users_by_username_def
        split: if_splits)
  then show ?thesis using assms(2) by auto
qed

lemma signin_issues:
  assumes "signin L amb flt c i p = (c', Json st b)" and "field ''token'' b = Some t"
  shows "\<exists>u \<in> set (users (store c)). u_is_verified u \<and> t = JStr (jwt_sign L (u_id u) (clock amb))"
proof -
  from assms obtain rows u rest where
    look: "signin_rows L (store c) i = Some rows" "rows = u # rest" and ver: "u_is_verified u"
    and tok: "t = JStr (jwt_sign L (u_id u) (clock amb))"
    by (auto simp: signin_def internal_error_def invalid_credentials_def email_not_verified_def
        message_def split: if_splits list.splits option.splits)
  have "u \<in> set (users (store c))"
    using look by (rule signin_rows_stored)
  then show ?thesis using ver tok by blast
qed

lemma signin_v1_issues:
  assumes "signin_v1 L amb flt c i p = (c', Json st b)" and "field ''token'' b = Some t"
  shows "\<exists>u \<in> set (users (store c)). u_is_verified u \<and> t = JStr (jwt_sign L (u_id u) (clock amb))"
proof -
  from assms obtain rows u rest where
    look: "signin_rows L (store c) i = Some rows" "rows = u # rest" and ver: "u_is_verified u"
    and tok: "t = JStr (jwt_sign L (u_id u) (clock amb))"
    by (auto simp: signin_v1_def internal_error_def invalid_credentials_def email_not_verified_def
        message_def split: if_splits list.splits option.splits)
  have "u \<in> set (users (store c))"
    using look by (rule signin_rows_stored)
  then show ?thesis using ver tok by blast
qed

lemma tokenless_bodies:
  "tokenless (c, Json st (message m))"
  "tokenless (c, SendStatus st)"
  "tokenless (c, NoResponse)"
  "tokenless (c, internal_error)"
  "tokenless (c, not_found_or_not_owned)"
  "tokenless (c, duplicate_email)"
  "tokenless (c, user_deleted)"
  "tokenless (c, Json st (user_summary u))"
  "tokenless (c, Json st (project_summary p))"
  "tokenless (c, Json st (email_record e))"
  "tokenless (c, Json st (JArr xs))"
  "tokenless (c, Json st (JStr s))"
  by (simp_all add: tokenless_def internal_error_def not_found_or_not_owned_def
      duplicate_email_def user_deleted_def user_summary_def project_summary_def
      email_record_def message_def)

lemma tokenless_catch: "tokenless (catch_rollback flt c)"
  by (simp add: catch_rollback_def tokenless_bodies)

lemma tokenless_handlers:
  "tokenless (signup L amb flt c n e pw)"
  "tokenless (signup_v3 L amb flt c n e pw)"
  "tokenless (signup_v1 L amb flt c n e pw)"
  "tokenless (verify_email flt c t)"
  "tokenless (verify_email_v1 flt c t)"
  "tokenless (get_users flt c)"
  "tokenless (delete_user flt c uid)"
  "tokenless (create_project amb flt c uid n d)"
  "tokenless (delete_project flt c pid uid)"
  "tokenless (collect_email amb flt c pid e)"
  "tokenless (get_emails flt c pid uid)"
  "tokenless (delete_email flt c pid eid uid)"
  by (simp_all add: signup_def signup_v3_def signup_v1_def verify_email_def
      verify_email_v1_def get_users_def delete_user_def create_project_def
      delete_project_def collect_email_def get_emails_def delete_email_def Let_def
      tokenless_bodies tokenless_catch)

lemma gate_refusals:
  "authenticateToken L amb hdr = Inl r \<Longrightarrow> r = SendStatus 401 \<or> r = SendStatus 403"
  by (auto simp: authenticateToken_def split: option.splits if_splits list.splits)

lemma tokenless_gated:
  assumes "\<And>uid. tokenless (h uid)"
  shows "tokenless (gated L amb hdr c h)"
proof (cases "authenticateToken L amb hdr")
  case (Inl r)
  then show ?thesis
    using gate_refusals [OF Inl] by (auto simp: gated_def tokenless_bodies)
next
  case (Inr uid)
  then show ?thesis using assms by (simp add: gated_def)
qed

text \<open>
  C5: whatever the store, the inputs and the rejected queries, if the response of any
  operation is a JSON body with a \<open>token\<close> field, then the token is the one signed
  for the identifier of a user whose row in the store, at that moment, has the verified
  flag set.
\<close>

theorem session_only_if_verified:
  assumes "handle L amb flt c req = (c', Json st b)" and "field ''token'' b = Some t"
  shows "\<exists>u \<in> set (users (store c)). u_is_verified u \<and> t = JStr (jwt_sign L (u_id u) (clock amb))"
proof -
  have nt: "\<not> tokenless (handle L amb flt c req)"
    using assms by (simp add: tokenless_def)
  show ?thesis
  proof (cases req)
    case (Signin n pw)
    then show ?thesis using assms signin_issues by simp
  next
    case (SigninV1 n pw)
    then show ?thesis using assms signin_v1_issues by simp
  qed (use nt in \<open>simp_all add: tokenless_handlers tokenless_gated tokenless_bodies\<close>)
qed

theorem session_only_if_verified_witness:
  "handle toy_libs demo_ambient no_faults demo_client (Signin (JStr ''bob'') (JStr ''pw-b''))
     = (demo_client, Json 200 (JObj [(''token'', JStr ''jwt.u-bob''), (''expires'', JStr ''1970-01-01T01:08:20.000Z''),
                                     (''status'', JStr ''Success'')]))
   \<and> field ''token'' (JObj [(''token'', JStr ''jwt.u-bob''), (''expires'', JStr ''1970-01-01T01:08:20.000Z''),
                            (''status'', JStr ''Success'')]) = Some (JStr ''jwt.u-bob'')
   \<and> (\<exists>u \<in> set (users (store demo_client)).
         u_is_verified u \<and> JStr ''jwt.u-bob'' = JStr (jwt_sign toy_libs (u_id u) (clock demo_ambient)))"
proof -
  have r: "handle toy_libs demo_ambient no_faults demo_client (Signin (JStr ''bob'') (JStr ''pw-b''))
     = (demo_client, Json 200 (JObj [(''token'', JStr ''jwt.u-bob''), (''expires'', JStr ''1970-01-01T01:08:20.000Z''),
                                     (''status'', JStr ''Success'')]))"
    by (simp add: signin_def signin_lookup_def select_users_by_username_def falsy_def demo_defs)
  have f: "field ''token'' (JObj [(''token'', JStr ''jwt.u-bob''), (''expires'', JStr ''1970-01-01T01:08:20.000Z''),
                            (''status'', JStr ''Success'')]) = Some (JStr ''jwt.u-bob'')"
    by simp
  show ?thesis
    using session_only_if_verified [OF r f] r f by blast
qed


section \<open>Collecting an address twice\<close>

text \<open>
  C8: after an add of the pair (project, address) that succeeded (status 201), a second
  add of the same pair whose two checks are not rejected gets the duplicate-email
  response and changes nothing, and the store holds exactly one row for the pair.
\<close>

theorem collect_email_twice:
  assumes "collect_email amb flt c p e = (c1, Json 201 r)"
    and "\<not> flt' 0 \<and> \<not> flt' 1"
  shows "collect_email amb' flt' c1 p e = (c1, duplicate_email)
       \<and> length (filter (same_pair p e) (project_emails (store c1))) = 1"
proof -
  have ok: "\<not> falsy e" "filter (\<lambda>q. p_id q = p) (projects (store c)) \<noteq> []"
    "filter (same_pair p e) (project_emails (store c)) = []"
    and c1: "c1 = c\<lparr>store := (store c)\<lparr>project_emails := project_emails (store c) @
               [\<lparr>pe_id = next_id amb, pe_project_id = p, pe_email = e,
                 pe_added_at = clock amb\<rparr>]\<rparr>\<rparr>"
    using assms(1)
    by (auto simp: collect_email_def Let_def internal_error_def message_def duplicate_email_def
        split: if_splits)
  have one: "filter (same_pair p e) (project_emails (store c1)) =
      [\<lparr>pe_id = next_id amb, pe_project_id = p, pe_email = e, pe_added_at = clock amb\<rparr>]"
    unfolding c1 using ok(3) by (simp add: same_pair_def)
  have proj: "filter (\<lambda>q. p_id q = p) (projects (store c1)) \<noteq> []"
    unfolding c1 using ok(2) by simp
  show ?thesis
    using ok(1) proj one assms(2) by (simp add: collect_email_def)
qed

theorem collect_email_twice_witness:
  "collect_email demo_ambient no_faults demo_client 1 ''new@x.com''
     = (demo_client\<lparr>store := demo_db\<lparr>project_emails :=
          [alice_reader, bob_reader,
           \<lparr>pe_id = 7, pe_project_id = 1, pe_email = ''new@x.com'', pe_added_at = 500\<rparr>]\<rparr>\<rparr>,
        Json 201 (JObj [(''id'', JNum 7), (''project_id'', JNum 1),
                        (''email'', JStr ''new@x.com''), (''added_at'', JNum 500)]))
   \<and> \<not> no_faults 0 \<and> \<not> no_faults 1
   \<and> snd (collect_email demo_ambient no_faults
        (fst (collect_email demo_ambient no_faults demo_client 1 ''new@x.com'')) 1 ''new@x.com'')
       = Json 400 (message ''Email already associated with this project'')
   \<and> length (filter (same_pair 1 ''new@x.com'')
        (project_emails (store
          (fst (collect_email demo_ambient no_faults demo_client 1 ''new@x.com''))))) = 1"
proof -
  have r: "collect_email demo_ambient no_faults demo_client 1 ''new@x.com''
     = (demo_client\<lparr>store := demo_db\<lparr>project_emails :=
          [alice_reader, bob_reader,
           \<lparr>pe_id = 7, pe_project_id = 1, pe_email = ''new@x.com'', pe_added_at = 500\<rparr>]\<rparr>\<rparr>,
        Json 201 (JObj [(''id'', JNum 7), (''project_id'', JNum 1),
                        (''email'', JStr ''new@x.com''), (''added_at'', JNum 500)]))"
    by (simp add: collect_email_def Let_def falsy_def same_pair_def email_record_def demo_defs)
  have n: "\<not> no_faults 0 \<and> \<not> no_faults 1"
    by (simp add: no_faults_def)
  show ?thesis
    using collect_email_twice [OF r n, of demo_ambient] r n
    by (simp add: duplicate_email_def)
qed

section \<open>Signup\<close>

lemma length_to_hex: "length (to_hex w) = 64"
  by (simp add: to_hex_def)

text \<open>A stored token is never refused as empty by \<open>verify_email\<close>.\<close>

lemma to_hex_truthy: "\<not> falsy (to_hex w)"
  using length_to_hex [of w] by (auto simp: falsy_def)




text \<open>The signup of the third section of server.js differs from the documented one
  in the link of its mail only; and \<^verbatim>\<open>encodeURIComponent\<close> leaves a token as it
  is, so each link ends in the token itself.\<close>

lemma signup_v3_same_but_mail:
  "snd (signup_v3 L amb flt c n e pw) = snd (signup L amb flt c n e pw)
   \<and> store (fst (signup_v3 L amb flt c n e pw)) = store (fst (signup L amb flt c n e pw))
   \<and> txn (fst (signup_v3 L amb flt c n e pw)) = txn (fst (signup L amb flt c n e pw))"
  by (simp add: signup_def signup_v3_def Let_def insert_user_def sendVerificationEmail_def
      sendVerificationEmail_v3_def)

lemma hex_digit_unreserved: "uri_unreserved (hex_digit n)"
proof -
  have "n mod 16 < length ''0123456789abcdef''"
    by simp
  then have "hex_digit n \<in> set ''0123456789abcdef''"
    unfolding hex_digit_def by (rule nth_mem)
  then show ?thesis
    by (auto simp: uri_unreserved_def)
qed

lemma encode_unreserved:
  "list_all uri_unreserved s \<Longrightarrow> encodeURIComponent s = s"
  by (induction s) (simp_all add: encodeURIComponent_def)

lemma encode_to_hex: "encodeURIComponent (to_hex w) = to_hex w"
  by (rule encode_unreserved) (simp add: to_hex_def list_all_iff hex_digit_unreserved)

section \<open>Password hashes in responses\<close>

text \<open>
  C6 fails on \<^verbatim>\<open>GET /get-users\<close> (server.js lines 192-201, part_000 lines
  634-643): the body is every column of every user row, the password hash among them.
  The request needs no credentials.
\<close>

theorem get_users_leaks_hash:
  "snd (get_users no_faults demo_client) = Json 200 (JArr [user_row alice, user_row bob])
   \<and> field ''password_hash'' (user_row alice) = Some (JStr ''s1pw-a'')
   \<and> field ''password_hash'' (user_row bob) = Some (JStr ''s2pw-b'')
   \<and> mentions ''password_hash'' (body (snd (get_users no_faults demo_client)))"
  by (simp add: get_users_def user_row_def demo_defs)

text \<open>Every other operation keeps the hash out of its response: the signup summary
  names its four columns, as \<^verbatim>\<open>get-users\<close> does not.\<close>

lemma hash_free_bodies:
  "hash_free (c, Json st (message m))"
  "hash_free (c, SendStatus st)"
  "hash_free (c, NoResponse)"
  "hash_free (c, internal_error)"
  "hash_free (c, invalid_credentials)"
  "hash_free (c, email_not_verified)"
  "hash_free (c, not_found_or_not_owned)"
  "hash_free (c, duplicate_email)"
  "hash_free (c, user_deleted)"
  "hash_free (c, Json st (user_summary u))"
  "hash_free (c, Json st (project_summary p))"
  "hash_free (c, Json st (email_record e))"
  "hash_free (c, Json st (JArr (map email_record es)))"
  "hash_free (c, Json st (JStr s))"
  by (simp_all add: hash_free_def internal_error_def invalid_credentials_def
      email_not_verified_def not_found_or_not_owned_def duplicate_email_def user_deleted_def
      user_summary_def project_summary_def email_record_def message_def list_ex_iff
      split: option.splits)

lemma hash_free_catch: "hash_free (catch_rollback flt c)"
  by (simp add: catch_rollback_def hash_free_bodies)

lemma hash_free_handlers:
  "hash_free (signup L amb flt c n e pw)"
  "hash_free (signup_v3 L amb flt c n e pw)"
  "hash_free (signup_v1 L amb flt c n e pw)"
  "hash_free (verify_email flt c t)"
  "hash_free (verify_email_v1 flt c t)"
  "hash_free (delete_user flt c uid)"
  "hash_free (create_project amb flt c uid n d)"
  "hash_free (delete_project flt c pid uid)"
  "hash_free (collect_email amb flt c pid e)"
  "hash_free (get_emails flt c pid uid)"
  "hash_free (delete_email flt c pid eid uid)"
  by (simp_all add: signup_def signup_v3_def signup_v1_def verify_email_def
      verify_email_v1_def delete_user_def create_project_def delete_project_def
      collect_email_def get_emails_def delete_email_def Let_def hash_free_bodies
      hash_free_catch)

lemma hash_free_signin:
  "hash_free (signin L amb flt c i p)" "hash_free (signin_v1 L amb flt c i p)"
  by (simp_all add: signin_def signin_v1_def hash_free_bodies
      split: list.splits option.splits)
    (simp_all add: hash_free_def)

lemma hash_free_gated:
  assumes "\<And>uid. hash_free (h uid)"
  shows "hash_free (gated L amb hdr c h)"
proof (cases "authenticateToken L amb hdr")
  case (Inl r)
  then show ?thesis
    using gate_refusals [OF Inl] by (auto simp: gated_def hash_free_bodies)
next
  case (Inr uid)
  then show ?thesis using assms by (simp add: gated_def)
qed

lemma hash_free_but_get_users:
  "req \<noteq> GetUsers \<Longrightarrow> hash_free (handle L amb flt c req)"
  by (cases req)
    (simp_all add: hash_free_handlers hash_free_signin hash_free_gated hash_free_bodies)

end
